theory Spec2Isabelle
  imports Main "HOL-Library.Sublist"
begin

section \<open>The research pipeline of main.py\<close>

text \<open>
  The module main.py chains three external services: a web search (Tavily), a summarising
  model (Groq) and a report model (Gemini). The embedding keeps the services as parameters
  and follows the Python text line by line.

  \<^item> A Python \<open>str\<close> is a \<open>string\<close>; one \<open>char\<close> stands for one character of the
    Python string, so \<open>length\<close> is \<open>len\<close> and \<open>take 1500\<close> is the slice \<open>[:1500]\<close>.
  \<^item> An exception is a value \<open>Exc cls msg\<close>: an instance of a subclass of Python's
    \<open>Exception\<close>, with its class name and the text \<open>str(e)\<close>. These are exactly what
    \<open>except Exception\<close> catches; the interpreter's own signals (KeyboardInterrupt,
    SystemExit) are not errors of a provider and are outside the model.
  \<^item> A computation returns its outcome (\<open>Inl\<close> an exception that leaves the function,
    \<open>Inr\<close> the returned value) together with the events it performed, in order: the calls
    to the providers and the \<open>logger.error\<close> calls of the handlers. Calls to \<open>logger.info\<close>
    have no influence on any result and are not recorded.
\<close>

subsection \<open>Values\<close>

datatype exn = Exc (exc_class: string) (exc_msg: string)

definition str_exn :: "exn \<Rightarrow> string" where
  "str_exn e = exc_msg e"

text \<open>
  A search result is a dict from field names to texts, the response a dict whose key
  \<open>results\<close> holds the list of results. Both are maps, so that a key may be missing.
\<close>

type_synonym item = "string \<rightharpoonup> string"

type_synonym response = "string \<rightharpoonup> item list"

definition dict_get :: "('k \<rightharpoonup> 'v) \<Rightarrow> 'k \<Rightarrow> 'v \<Rightarrow> 'v" where
  "dict_get d k dflt = (case d k of None \<Rightarrow> dflt | Some v \<Rightarrow> v)"

text \<open>\<open>sep.join(xs)\<close> of Python.\<close>

fun str_join :: "string \<Rightarrow> string list \<Rightarrow> string" where
  "str_join sep [] = []"
| "str_join sep [x] = x"
| "str_join sep (x # y # ys) = x @ sep @ str_join sep (y # ys)"

text \<open>The text \<open>'s'\<close>: an f-string field between two apostrophes.\<close>

definition quoted :: "string \<Rightarrow> string" where
  "quoted s = CHR 0x27 # s @ [CHR 0x27]"

text \<open>Truth value of a looked-up credential: \<open>None\<close> and the empty text are false.\<close>

definition truthy :: "string option \<Rightarrow> bool" where
  "truthy k = (case k of None \<Rightarrow> False | Some s \<Rightarrow> s \<noteq> [])"

subsection \<open>Events and computations\<close>

datatype event =
    Init string
  | Search string
  | Invoke string string
  | Generate string
  | LogError string

type_synonym 'a run = "(exn + 'a) \<times> event list"

definition return_run :: "'a \<Rightarrow> 'a run" where
  "return_run x = (Inr x, [])"

definition raise_run :: "exn \<Rightarrow> 'a run" where
  "raise_run e = (Inl e, [])"

definition emit :: "event \<Rightarrow> unit run" where
  "emit ev = (Inr (), [ev])"

text \<open>A call to a provider: the event of the call and the provider's outcome.\<close>

definition call :: "event \<Rightarrow> exn + 'a \<Rightarrow> 'a run" where
  "call ev r = (r, [ev])"

text \<open>Sequencing: an exception of the first part skips the rest.\<close>

definition bind_run :: "'a run \<Rightarrow> ('a \<Rightarrow> 'b run) \<Rightarrow> 'b run" where
  "bind_run m f =
     (case m of
        (Inl e, t) \<Rightarrow> (Inl e, t)
      | (Inr x, t) \<Rightarrow> (case f x of (r, t') \<Rightarrow> (r, t @ t')))"

text \<open>\<open>try: m except Exception as e: h e\<close>.\<close>

definition try_except :: "'a run \<Rightarrow> (exn \<Rightarrow> 'a run) \<Rightarrow> 'a run" where
  "try_except m h =
     (case m of
        (Inl e, t) \<Rightarrow> (case h e of (r, t') \<Rightarrow> (r, t @ t'))
      | (Inr x, t) \<Rightarrow> (Inr x, t))"

subsection \<open>The providers\<close>

text \<open>
  Everything outside main.py is a field of \<open>providers\<close>: the two credential stores, the
  four constructions of the clients, the three service calls and the current date as
  \<open>strftime('%Y-%m-%d')\<close> prints it. The field \<open>secrets\<close> is the lookup of a key in
  \<open>st.secrets\<close>: it raises (Streamlit does so when it finds no secrets file), or finds no
  such key (\<open>Inr None\<close>), or finds a value. A service call is a function of its varying
  arguments (the fixed keyword arguments \<open>search_depth\<close>, \<open>max_results\<close>,
  \<open>generation_config\<close> are part of the function). Within one run no provider is called
  twice with the same arguments (the three sub-queries differ, so do the three prompts, and
  the report model is called once), so a function of the arguments can stand for any
  behaviour of a provider during a run, also one that depends on earlier calls.
\<close>

record providers =
  secrets :: "string \<Rightarrow> exn + string option"
  environ :: "string \<rightharpoonup> string"
  ChatGroq_new :: "string \<Rightarrow> exn + unit"
  TavilyClient_new :: "string \<Rightarrow> exn + unit"
  genai_configure :: "string \<Rightarrow> exn + unit"
  GenerativeModel_new :: "string \<Rightarrow> exn + unit"
  tavily_search :: "string \<Rightarrow> exn + response"
  llm_invoke :: "string \<Rightarrow> string \<Rightarrow> exn + string"
  generate_content :: "string \<Rightarrow> exn + string"
  today :: string

text \<open>
  \<open>st.secrets.get(k, os.getenv(k))\<close>: the default \<open>os.getenv(k)\<close> is evaluated first and
  is the result when the secrets hold no such key; an error of the secrets store leaves the
  call as an exception.
\<close>

definition secrets_get :: "providers \<Rightarrow> string \<Rightarrow> exn + string option" where
  "secrets_get env k =
     (let dflt = environ env k
      in case secrets env k of
           Inl e \<Rightarrow> Inl e
         | Inr None \<Rightarrow> Inr dflt
         | Inr (Some v) \<Rightarrow> Inr (Some v))"

text \<open>An outcome that is no call of a service and leaves no event.\<close>

definition lift_run :: "exn + 'a \<Rightarrow> 'a run" where
  "lift_run r = (r, [])"

subsection \<open>ResearchAgent\<close>

record research_agent =
  groq_api_key :: "string option"
  tavily_api_key :: "string option"

definition ResearchAgent_init :: "providers \<Rightarrow> research_agent run" where
  "ResearchAgent_init env =
     bind_run (lift_run (secrets_get env ''GROQ_API_KEY'')) (\<lambda>groq.
     bind_run (lift_run (secrets_get env ''TAVILY_API_KEY'')) (\<lambda>tavily.
       if \<not> (truthy groq \<and> truthy tavily)
       then raise_run (Exc ''ValueError'' ''Missing GROQ_API_KEY or TAVILY_API_KEY'')
       else bind_run (call (Init ''ChatGroq'') (ChatGroq_new env (the groq))) (\<lambda>_.
            bind_run (call (Init ''TavilyClient'') (TavilyClient_new env (the tavily))) (\<lambda>_.
            return_run \<lparr>groq_api_key = groq, tavily_api_key = tavily\<rparr>))))"

definition format_item :: "item \<Rightarrow> string" where
  "format_item it =
     (let content = take 1500 (dict_get it ''content'' ''N/A'')
      in ''Title: '' @ dict_get it ''title'' ''N/A'' @ ''\<newline>''
         @ ''Content: '' @ content @ ''\<newline>''
         @ ''URL: '' @ dict_get it ''url'' ''N/A'' @ ''\<newline>---'')"

definition search_web :: "providers \<Rightarrow> string \<Rightarrow> string run" where
  "search_web env query =
     try_except
       (bind_run (call (Search query) (tavily_search env query)) (\<lambda>resp.
          let items = dict_get resp ''results'' []
          in if List.null items then return_run ''No results.''
             else return_run (str_join ''\<newline>'' (map format_item items))))
       (\<lambda>e. bind_run (emit (LogError ''Search error'')) (\<lambda>_.
            return_run (''Search failed: '' @ str_exn e)))"

definition queries :: "string \<Rightarrow> string list" where
  "queries topic =
     [topic @ '' recent developments'',
      topic @ '' key players and companies'',
      topic @ '' major challenges and opportunities'']"

definition system_message :: string where
  "system_message = ''You are an expert research analyst.''"

definition summary_prompt :: "string \<Rightarrow> string \<Rightarrow> string \<Rightarrow> string" where
  "summary_prompt topic q web_data =
     ''You are an expert researcher. Synthesize this data on '' @ quoted topic
       @ '':\<newline>\<newline>''
     @ ''Query: '' @ q @ ''\<newline>'' @ web_data @ ''\<newline>''
     @ ''Provide a concise, factual summary based *only* on the provided data (max 250 words).''"

text \<open>
  The loop \<open>for q in queries\<close> of \<open>research_topic\<close>, with the list \<open>summaries\<close> it
  appends to as an accumulator.
\<close>

fun research_loop :: "providers \<Rightarrow> string \<Rightarrow> string list \<Rightarrow> string list \<Rightarrow> string list run" where
  "research_loop env topic [] summaries = return_run summaries"
| "research_loop env topic (q # qs) summaries =
     bind_run (search_web env q) (\<lambda>web_data.
       if web_data = ''No results.'' then research_loop env topic qs summaries
       else bind_run
              (call (Invoke system_message (summary_prompt topic q web_data))
                 (llm_invoke env system_message (summary_prompt topic q web_data)))
              (\<lambda>content. research_loop env topic qs (summaries @ [content])))"

definition separator :: string where
  "separator = ''\<newline>\<newline>---\<newline>\<newline>''"

definition research_topic :: "providers \<Rightarrow> string \<Rightarrow> string run" where
  "research_topic env topic =
     try_except
       (bind_run (research_loop env topic (queries topic) []) (\<lambda>summaries.
          if List.null summaries
          then return_run ''Could not find sufficient information on the topic.''
          else return_run (str_join separator summaries)))
       (\<lambda>e. bind_run (emit (LogError ''Research error'')) (\<lambda>_.
            return_run (''Research failed: '' @ str_exn e)))"

subsection \<open>AnalystAgent\<close>

record analyst_agent =
  gemini_key :: "string option"

definition AnalystAgent_init :: "providers \<Rightarrow> analyst_agent run" where
  "AnalystAgent_init env =
     bind_run (lift_run (secrets_get env ''GEMINI_API_KEY'')) (\<lambda>gemini.
       if \<not> truthy gemini
       then raise_run (Exc ''ValueError'' ''Missing GEMINI_API_KEY'')
       else bind_run (call (Init ''genai.configure'') (genai_configure env (the gemini))) (\<lambda>_.
            bind_run (call (Init ''GenerativeModel'')
                        (GenerativeModel_new env ''gemini-1.5-flash-latest'')) (\<lambda>_.
            return_run \<lparr>gemini_key = gemini\<rparr>)))"

definition report_prompt :: "providers \<Rightarrow> string \<Rightarrow> string \<Rightarrow> string" where
  "report_prompt env research_data topic =
     ''You are a senior research analyst. Create a detailed, well-structured markdown report on ''
       @ quoted topic @ ''.\<newline>\<newline>''
     @ ''Use the following research summaries to construct your report. Adhere strictly to the provided information.\<newline>\<newline>''
     @ ''Include the following sections:\<newline>''
     @ ''- **Executive Summary**\<newline>''
     @ ''- **Key Findings**\<newline>''
     @ ''- **Detailed Analysis**\<newline>''
     @ ''- **Conclusions & Recommendations**\<newline>\<newline>''
     @ ''--- RESEARCH DATA START ---\<newline>'' @ research_data
       @ ''\<newline>--- RESEARCH DATA END ---\<newline>\<newline>''
     @ ''Current date: '' @ today env"

definition create_report :: "providers \<Rightarrow> string \<Rightarrow> string \<Rightarrow> string run" where
  "create_report env research_data topic =
     try_except
       (call (Generate (report_prompt env research_data topic))
          (generate_content env (report_prompt env research_data topic)))
       (\<lambda>e. bind_run (emit (LogError ''Report creation error'')) (\<lambda>_.
            return_run (''Report generation failed: '' @ str_exn e)))"

subsection \<open>ResearchSystem and the pipeline\<close>

record research_system =
  researcher :: research_agent
  analyst :: analyst_agent

definition ResearchSystem_init :: "providers \<Rightarrow> research_system run" where
  "ResearchSystem_init env =
     bind_run (ResearchAgent_init env) (\<lambda>r.
     bind_run (AnalystAgent_init env) (\<lambda>a.
     return_run \<lparr>researcher = r, analyst = a\<rparr>))"

definition run_full_research :: "providers \<Rightarrow> string \<Rightarrow> string run" where
  "run_full_research env topic =
     try_except
       (bind_run (ResearchSystem_init env) (\<lambda>system.
        bind_run (research_topic env topic) (\<lambda>data.
        create_report env data topic)))
       (\<lambda>e. bind_run (emit (LogError ''Full research pipeline failed'')) (\<lambda>_.
            return_run (''# Research Failed\<newline>\<newline>An unexpected error occurred: ''
                        @ str_exn e @ ''\<newline>'')))"

subsection \<open>Reading a run\<close>

text \<open>
  The text \<open>_search_web\<close> returns for a query (it never raises, see
  \<open>search_web_web_text\<close> below), and the three ways a search can go.
\<close>

definition web_text :: "providers \<Rightarrow> string \<Rightarrow> string" where
  "web_text env q = (case fst (search_web env q) of Inl e \<Rightarrow> [] | Inr w \<Rightarrow> w)"

definition search_raises :: "providers \<Rightarrow> string \<Rightarrow> bool" where
  "search_raises env q = (case tavily_search env q of Inl e \<Rightarrow> True | Inr resp \<Rightarrow> False)"

definition search_finds :: "providers \<Rightarrow> string \<Rightarrow> bool" where
  "search_finds env q =
     (case tavily_search env q of
        Inl e \<Rightarrow> False
      | Inr resp \<Rightarrow> \<not> List.null (dict_get resp ''results'' []))"

definition search_empty :: "providers \<Rightarrow> string \<Rightarrow> bool" where
  "search_empty env q =
     (case tavily_search env q of
        Inl e \<Rightarrow> False
      | Inr resp \<Rightarrow> List.null (dict_get resp ''results'' []))"

text \<open>The outcome of the summariser on the prompt that \<open>research_topic\<close> builds for a query.\<close>

definition summary_of :: "providers \<Rightarrow> string \<Rightarrow> string \<Rightarrow> exn + string" where
  "summary_of env topic q =
     llm_invoke env system_message (summary_prompt topic q (web_text env q))"

text \<open>The text \<open>research_topic\<close> returns (it never raises either).\<close>

definition research_data :: "providers \<Rightarrow> string \<Rightarrow> string" where
  "research_data env topic = (case fst (research_topic env topic) of Inl e \<Rightarrow> [] | Inr d \<Rightarrow> d)"

text \<open>The calls of a trace, by provider and in order.\<close>

fun report_calls :: "event list \<Rightarrow> string list" where
  "report_calls [] = []"
| "report_calls (Generate p # t) = p # report_calls t"
| "report_calls (ev # t) = report_calls t"

fun summarizer_calls :: "event list \<Rightarrow> (string \<times> string) list" where
  "summarizer_calls [] = []"
| "summarizer_calls (Invoke s p # t) = (s, p) # summarizer_calls t"
| "summarizer_calls (ev # t) = summarizer_calls t"

fun search_calls :: "event list \<Rightarrow> string list" where
  "search_calls [] = []"
| "search_calls (Search q # t) = q # search_calls t"
| "search_calls (ev # t) = search_calls t"

fun error_logs :: "event list \<Rightarrow> string list" where
  "error_logs [] = []"
| "error_logs (LogError m # t) = m # error_logs t"
| "error_logs (ev # t) = error_logs t"

subsection \<open>Concrete scenarios\<close>

text \<open>
  The scenario of the test suite: all three keys in the environment, a secrets store that
  answers and holds no key, every client constructed, every search returning the one result \<open>{title: T, content: C, url: U}\<close>,
  the summariser answering \<open>sum\<close> and the report model \<open>## Report\<close>.
\<close>

definition item_TCU :: item where
  "item_TCU = [''title'' \<mapsto> ''T'', ''content'' \<mapsto> ''C'', ''url'' \<mapsto> ''U'']"

definition scenario :: providers where
  "scenario =
     \<lparr>secrets = (\<lambda>k. Inr None),
      environ = [''GROQ_API_KEY'' \<mapsto> ''gk'', ''TAVILY_API_KEY'' \<mapsto> ''tk'',
                 ''GEMINI_API_KEY'' \<mapsto> ''gk2''],
      ChatGroq_new = (\<lambda>k. Inr ()),
      TavilyClient_new = (\<lambda>k. Inr ()),
      genai_configure = (\<lambda>k. Inr ()),
      GenerativeModel_new = (\<lambda>m. Inr ()),
      tavily_search = (\<lambda>q. Inr [''results'' \<mapsto> [item_TCU]]),
      llm_invoke = (\<lambda>s p. Inr ''sum''),
      generate_content = (\<lambda>p. Inr ''## Report''),
      today = ''2025-01-01''\<rparr>"

text \<open>No credential anywhere; and every credential but the search key.\<close>

definition scenario_no_keys :: providers where
  "scenario_no_keys = scenario\<lparr>environ := Map.empty\<rparr>"

definition scenario_no_tavily_key :: providers where
  "scenario_no_tavily_key =
     scenario\<lparr>environ := [''GROQ_API_KEY'' \<mapsto> ''gk'', ''GEMINI_API_KEY'' \<mapsto> ''gk2'']\<rparr>"

text \<open>
  All three keys in the environment, and a secrets store that raises on every lookup, as
  Streamlit's does where there is no secrets file.
\<close>

definition scenario_no_secrets_file :: providers where
  "scenario_no_secrets_file =
     scenario\<lparr>secrets :=
       (\<lambda>k. Inl (Exc ''StreamlitSecretNotFoundError'' ''No secrets found.''))\<rparr>"

text \<open>
  The search raises for the first sub-query of the topic \<open>AI\<close> only; the summariser
  answers \<open>S1\<close>, \<open>S2\<close>, \<open>S3\<close> according to the sub-query named in its prompt.
\<close>

definition text_TCU :: string where
  "text_TCU = ''Title: T\<newline>Content: C\<newline>URL: U\<newline>---''"

definition scenario_search_fails :: providers where
  "scenario_search_fails =
     scenario\<lparr>
       tavily_search := (\<lambda>q. if q = ''AI recent developments''
                              then Inl (Exc ''ConnectionError'' ''boom'')
                              else Inr [''results'' \<mapsto> [item_TCU]]),
       llm_invoke := (\<lambda>s p.
         if p = summary_prompt ''AI'' ''AI recent developments'' ''Search failed: boom''
         then Inr ''S1''
         else if p = summary_prompt ''AI'' ''AI key players and companies'' text_TCU
         then Inr ''S2''
         else Inr ''S3'')\<rparr>"

text \<open>Every search returns an empty list of results.\<close>

definition scenario_no_results :: providers where
  "scenario_no_results = scenario\<lparr>tavily_search := (\<lambda>q. Inr [''results'' \<mapsto> []])\<rparr>"

text \<open>The summariser raises on every call; and on the second sub-query of \<open>AI\<close> only.\<close>

definition scenario_summarizer_fails :: providers where
  "scenario_summarizer_fails =
     scenario\<lparr>llm_invoke := (\<lambda>s p. Inl (Exc ''RuntimeError'' ''boom''))\<rparr>"

definition scenario_second_summary_fails :: providers where
  "scenario_second_summary_fails =
     scenario\<lparr>llm_invoke := (\<lambda>s p.
       if p = summary_prompt ''AI'' ''AI key players and companies'' text_TCU
       then Inl (Exc ''RuntimeError'' ''boom'')
       else Inr ''sum'')\<rparr>"

text \<open>A result with 1501 characters of content; and a result with no field at all.\<close>

definition item_long :: item where
  "item_long =
     [''title'' \<mapsto> ''T'', ''content'' \<mapsto> replicate 1501 CHR ''a'', ''url'' \<mapsto> ''U'']"

definition scenario_long_content :: providers where
  "scenario_long_content =
     scenario\<lparr>tavily_search := (\<lambda>q. Inr [''results'' \<mapsto> [item_long]])\<rparr>"

definition scenario_missing_fields :: providers where
  "scenario_missing_fields =
     scenario\<lparr>tavily_search := (\<lambda>q. Inr [''results'' \<mapsto> [Map.empty]])\<rparr>"

section \<open>Properties\<close>

subsection \<open>Sequencing and handlers\<close>

lemma bind_run_Inl: "bind_run (Inl e, t) f = (Inl e, t)"
  by (simp add: bind_run_def)

lemma bind_run_Inr: "bind_run (Inr x, t) f = (fst (f x), t @ snd (f x))"
  by (simp add: bind_run_def split: prod.split)

lemma bind_run_return: "bind_run (return_run x) f = f x"
  by (simp add: bind_run_def return_run_def split: prod.split)

lemma bind_run_assoc: "bind_run (bind_run m f) g = bind_run m (\<lambda>x. bind_run (f x) g)"
  by (simp add: bind_run_def split: prod.split sum.split)

lemma try_except_Inl: "try_except (Inl e, t) h = (fst (h e), t @ snd (h e))"
  by (simp add: try_except_def split: prod.split)

lemma try_except_Inr: "try_except (Inr x, t) h = (Inr x, t)"
  by (simp add: try_except_def)

lemma handler_run: "bind_run (emit ev) (\<lambda>_. return_run s) = (Inr s, [ev])"
  by (simp add: bind_run_def emit_def return_run_def)

text \<open>
  A handler that logs and returns a text turns every outcome into a returned value: this
  is the shape of all four \<open>try\<close> blocks of the module.
\<close>

lemma try_handler:
  "try_except m (\<lambda>e. bind_run (emit ev) (\<lambda>_. return_run (f e))) =
     (case fst m of
        Inl e \<Rightarrow> (Inr (f e), snd m @ [ev])
      | Inr x \<Rightarrow> (Inr x, snd m))"
  by (cases m) (simp add: try_except_def handler_run split: sum.split)

subsection \<open>The search\<close>

lemma search_web_raise:
  "tavily_search env q = Inl e \<Longrightarrow>
   search_web env q =
     (Inr (''Search failed: '' @ str_exn e), [Search q, LogError ''Search error''])"
  by (simp add: search_web_def call_def bind_run_Inl try_except_Inl handler_run)

lemma search_web_empty:
  "tavily_search env q = Inr resp \<Longrightarrow> dict_get resp ''results'' [] = [] \<Longrightarrow>
   search_web env q = (Inr ''No results.'', [Search q])"
  by (simp add: search_web_def call_def bind_run_Inr try_except_Inr return_run_def)

lemma search_web_items:
  "tavily_search env q = Inr resp \<Longrightarrow> dict_get resp ''results'' [] \<noteq> [] \<Longrightarrow>
   search_web env q =
     (Inr (str_join ''\<newline>'' (map format_item (dict_get resp ''results'' []))), [Search q])"
  by (simp add: search_web_def call_def bind_run_Inr try_except_Inr return_run_def)

lemma search_web_returns: "\<exists>w. fst (search_web env q) = Inr w"
proof (cases "tavily_search env q")
  case (Inl e)
  then show ?thesis by (simp add: search_web_raise)
next
  case (Inr resp)
  then show ?thesis
    by (cases "dict_get resp ''results'' [] = []")
       (simp_all add: search_web_empty search_web_items)
qed

lemma search_web_web_text: "fst (search_web env q) = Inr (web_text env q)"
  using search_web_returns [of env q] by (auto simp: web_text_def)

lemma format_item_Title: "\<exists>rest. format_item it = ''Title: '' @ rest"
  by (simp add: format_item_def)

lemma str_join_prefix: "\<exists>rest. str_join sep ((p @ r) # xs) = p @ rest"
  by (cases xs) simp_all

text \<open>A formatted list of results is never mistaken for the sentinel.\<close>

lemma formatted_not_sentinel:
  assumes "items \<noteq> []"
  shows "str_join ''\<newline>'' (map format_item items) \<noteq> ''No results.''"
proof -
  from assms obtain it its where items: "items = it # its" by (cases items) auto
  obtain r1 where r1: "format_item it = ''Title: '' @ r1"
    using format_item_Title by blast
  obtain rest where rest:
    "str_join ''\<newline>'' ((''Title: '' @ r1) # map format_item its) = ''Title: '' @ rest"
    using str_join_prefix by blast
  have "map format_item items = (''Title: '' @ r1) # map format_item its"
    by (simp only: items list.map r1)
  then have "str_join ''\<newline>'' (map format_item items) = ''Title: '' @ rest"
    by (simp only: rest)
  then show ?thesis by simp
qed

lemma web_text_raise:
  "tavily_search env q = Inl e \<Longrightarrow> web_text env q = ''Search failed: '' @ str_exn e"
  by (simp add: web_text_def search_web_raise)

lemma web_text_empty: "search_empty env q \<Longrightarrow> web_text env q = ''No results.''"
  by (auto simp: web_text_def search_empty_def search_web_empty split: sum.splits)

lemma web_text_finds:
  "tavily_search env q = Inr resp \<Longrightarrow> dict_get resp ''results'' [] \<noteq> [] \<Longrightarrow>
   web_text env q = str_join ''\<newline>'' (map format_item (dict_get resp ''results'' []))"
  by (simp add: web_text_def search_web_items)

lemma web_text_sentinel_iff: "web_text env q = ''No results.'' \<longleftrightarrow> search_empty env q"
proof (cases "tavily_search env q")
  case (Inl e)
  then show ?thesis by (simp add: web_text_raise search_empty_def)
next
  case (Inr resp)
  show ?thesis
  proof (cases "dict_get resp ''results'' [] = []")
    case True
    with Inr have "search_empty env q" by (simp add: search_empty_def)
    then show ?thesis by (simp add: web_text_empty)
  next
    case False
    with Inr have "\<not> search_empty env q" by (simp add: search_empty_def)
    moreover have "web_text env q \<noteq> ''No results.''"
      using Inr False by (simp only: web_text_finds formatted_not_sentinel not_False_eq_True)
    ultimately show ?thesis by simp
  qed
qed

lemma search_web_trace:
  "snd (search_web env q) =
     Search q # (if search_raises env q then [LogError ''Search error''] else [])"
proof (cases "tavily_search env q")
  case (Inl e)
  then show ?thesis by (simp add: search_web_raise search_raises_def)
next
  case (Inr resp)
  then show ?thesis
    by (cases "dict_get resp ''results'' [] = []")
       (simp_all add: search_web_empty search_web_items search_raises_def)
qed

lemma search_web_eq: "search_web env q = (Inr (web_text env q), snd (search_web env q))"
  by (simp add: prod_eq_iff search_web_web_text)

subsection \<open>The loop over the sub-queries\<close>

lemma research_loop_Cons:
  "research_loop env topic (q # qs) acc =
     (if web_text env q = ''No results.''
      then (fst (research_loop env topic qs acc),
            snd (search_web env q) @ snd (research_loop env topic qs acc))
      else case summary_of env topic q of
             Inl e \<Rightarrow>
               (Inl e, snd (search_web env q)
                       @ [Invoke system_message (summary_prompt topic q (web_text env q))])
           | Inr c \<Rightarrow>
               (fst (research_loop env topic qs (acc @ [c])),
                snd (search_web env q)
                @ Invoke system_message (summary_prompt topic q (web_text env q))
                # snd (research_loop env topic qs (acc @ [c]))))"
proof -
  have "research_loop env topic (q # qs) acc =
     bind_run (Inr (web_text env q), snd (search_web env q)) (\<lambda>web_data.
       if web_data = ''No results.'' then research_loop env topic qs acc
       else bind_run
              (call (Invoke system_message (summary_prompt topic q web_data))
                 (llm_invoke env system_message (summary_prompt topic q web_data)))
              (\<lambda>content. research_loop env topic qs (acc @ [content])))"
    by (simp only: research_loop.simps search_web_eq [symmetric])
  then show ?thesis
    by (simp add: bind_run_Inr bind_run_Inl call_def summary_of_def split: sum.split)
qed

lemma research_loop_Nil: "research_loop env topic [] acc = (Inr acc, [])"
  by (simp add: return_run_def)

declare research_loop.simps [simp del]
declare research_loop_Nil [simp]

lemma research_loop_append:
  "research_loop env topic (xs @ ys) acc =
     bind_run (research_loop env topic xs acc) (research_loop env topic ys)"
proof (induction xs arbitrary: acc)
  case Nil
  show ?case by (simp add: bind_run_Inr)
next
  case (Cons q xs)
  show ?case
    by (simp add: research_loop_Cons Cons.IH bind_run_def split: sum.split prod.split)
qed

text \<open>The loop raises only what the summariser raised.\<close>

lemma research_loop_ok:
  assumes "\<forall>q\<in>set qs. web_text env q \<noteq> ''No results.'' \<longrightarrow>
             (\<exists>c. summary_of env topic q = Inr c)"
  shows "\<exists>ss. fst (research_loop env topic qs acc) = Inr ss"
  using assms
proof (induction qs arbitrary: acc)
  case Nil
  show ?case by simp
next
  case (Cons q qs)
  then show ?case by (auto simp: research_loop_Cons)
qed

subsection \<open>Traces\<close>

lemma search_calls_append: "search_calls (s @ t) = search_calls s @ search_calls t"
  by (induction s rule: search_calls.induct) simp_all

lemma report_calls_append: "report_calls (s @ t) = report_calls s @ report_calls t"
  by (induction s rule: report_calls.induct) simp_all

lemma summarizer_calls_append:
  "summarizer_calls (s @ t) = summarizer_calls s @ summarizer_calls t"
  by (induction s rule: summarizer_calls.induct) simp_all

lemma error_logs_append: "error_logs (s @ t) = error_logs s @ error_logs t"
  by (induction s rule: error_logs.induct) simp_all

lemma search_web_search_calls: "search_calls (snd (search_web env q)) = [q]"
  by (simp add: search_web_trace)

lemma search_web_report_calls: "report_calls (snd (search_web env q)) = []"
  by (simp add: search_web_trace)

lemma research_loop_searched:
  "set (search_calls (snd (research_loop env topic qs acc))) \<subseteq> set qs"
proof (induction qs arbitrary: acc)
  case Nil
  show ?case by simp
next
  case (Cons q qs)
  have "set (search_calls (snd (research_loop env topic qs a))) \<subseteq> insert q (set qs)" for a
    using Cons.IH [of a] by blast
  then show ?case
    by (simp add: research_loop_Cons search_calls_append search_web_search_calls
          split: sum.split)
qed

lemma research_loop_report_calls:
  "report_calls (snd (research_loop env topic qs acc)) = []"
proof (induction qs arbitrary: acc)
  case Nil
  show ?case by simp
next
  case (Cons q qs)
  then show ?case
    by (simp add: research_loop_Cons report_calls_append search_web_report_calls
          split: sum.split)
qed

subsection \<open>The stages\<close>

lemma research_topic_eq:
  "research_topic env topic =
     (case fst (research_loop env topic (queries topic) []) of
        Inl e \<Rightarrow> (Inr (''Research failed: '' @ str_exn e),
                  snd (research_loop env topic (queries topic) []) @ [LogError ''Research error''])
      | Inr ss \<Rightarrow> (Inr (if ss = [] then ''Could not find sufficient information on the topic.''
                         else str_join separator ss),
                   snd (research_loop env topic (queries topic) [])))"
proof -
  obtain r t where rt: "research_loop env topic (queries topic) [] = (r, t)"
    by (cases "research_loop env topic (queries topic) []")
  have "research_topic env topic =
     (case fst (bind_run (r, t) (\<lambda>summaries.
          if List.null summaries
          then return_run ''Could not find sufficient information on the topic.''
          else return_run (str_join separator summaries))) of
        Inl e \<Rightarrow> (Inr (''Research failed: '' @ str_exn e),
                  snd (bind_run (r, t) (\<lambda>summaries.
          if List.null summaries
          then return_run ''Could not find sufficient information on the topic.''
          else return_run (str_join separator summaries))) @ [LogError ''Research error''])
      | Inr x \<Rightarrow> (Inr x, snd (bind_run (r, t) (\<lambda>summaries.
          if List.null summaries
          then return_run ''Could not find sufficient information on the topic.''
          else return_run (str_join separator summaries)))))"
    by (simp only: research_topic_def try_handler rt)
  then show ?thesis
    by (cases r) (simp_all add: rt bind_run_Inl bind_run_Inr return_run_def)
qed

lemma research_topic_returns: "\<exists>d. fst (research_topic env topic) = Inr d"
  by (simp add: research_topic_eq split: sum.split)

lemma research_topic_report_calls: "report_calls (snd (research_topic env topic)) = []"
  by (simp add: research_topic_eq report_calls_append research_loop_report_calls
        split: sum.split)

lemma create_report_eq:
  "create_report env d topic =
     (case generate_content env (report_prompt env d topic) of
        Inl e \<Rightarrow> (Inr (''Report generation failed: '' @ str_exn e),
                  [Generate (report_prompt env d topic), LogError ''Report creation error''])
      | Inr r \<Rightarrow> (Inr r, [Generate (report_prompt env d topic)]))"
  by (simp add: create_report_def try_handler call_def split: sum.split)

lemma create_report_returns: "\<exists>r. fst (create_report env d topic) = Inr r"
  by (simp add: create_report_eq split: sum.split)

lemma create_report_report_calls:
  "report_calls (snd (create_report env d topic)) = [report_prompt env d topic]"
  by (simp add: create_report_eq split: sum.split)

lemma ResearchAgent_init_trace:
  "report_calls (snd (ResearchAgent_init env)) = [] \<and>
   error_logs (snd (ResearchAgent_init env)) = []"
  by (simp add: ResearchAgent_init_def lift_run_def raise_run_def bind_run_def call_def
        return_run_def split: sum.split)

lemma AnalystAgent_init_trace:
  "report_calls (snd (AnalystAgent_init env)) = [] \<and>
   error_logs (snd (AnalystAgent_init env)) = []"
  by (simp add: AnalystAgent_init_def lift_run_def raise_run_def bind_run_def call_def
        return_run_def split: sum.split)

lemma ResearchSystem_init_trace:
  "report_calls (snd (ResearchSystem_init env)) = [] \<and>
   error_logs (snd (ResearchSystem_init env)) = []"
proof -
  obtain r t where rt: "ResearchAgent_init env = (r, t)" by (cases "ResearchAgent_init env")
  obtain a u where au: "AnalystAgent_init env = (a, u)" by (cases "AnalystAgent_init env")
  from rt ResearchAgent_init_trace [of env]
  have t: "report_calls t = []" "error_logs t = []" by simp_all
  from au AnalystAgent_init_trace [of env]
  have u: "report_calls u = []" "error_logs u = []" by simp_all
  show ?thesis
    by (cases r; cases a)
       (simp_all add: ResearchSystem_init_def rt au bind_run_def return_run_def t u
          report_calls_append error_logs_append)
qed

lemma research_topic_research_data: "fst (research_topic env topic) = Inr (research_data env topic)"
  using research_topic_returns [of env topic] by (auto simp: research_data_def)

lemma run_full_research_eq:
  "run_full_research env topic =
     (case fst (ResearchSystem_init env) of
        Inl e \<Rightarrow>
          (Inr (''# Research Failed\<newline>\<newline>An unexpected error occurred: ''
                @ str_exn e @ ''\<newline>''),
           snd (ResearchSystem_init env) @ [LogError ''Full research pipeline failed''])
      | Inr system \<Rightarrow>
          (fst (create_report env (research_data env topic) topic),
           snd (ResearchSystem_init env) @ snd (research_topic env topic)
           @ snd (create_report env (research_data env topic) topic)))"
proof -
  obtain r t where rt: "ResearchSystem_init env = (r, t)"
    by (cases "ResearchSystem_init env")
  obtain u where u: "research_topic env topic = (Inr (research_data env topic), u)"
    using research_topic_research_data [of env topic]
    by (cases "research_topic env topic") simp
  obtain x v where xv: "create_report env (research_data env topic) topic = (Inr x, v)"
    using create_report_returns [of env "research_data env topic" topic]
    by (cases "create_report env (research_data env topic) topic") auto
  have "run_full_research env topic =
     (let m = bind_run (r, t) (\<lambda>system.
        bind_run (research_topic env topic) (\<lambda>data. create_report env data topic))
      in case fst m of
        Inl e \<Rightarrow> (Inr (''# Research Failed\<newline>\<newline>An unexpected error occurred: ''
                       @ str_exn e @ ''\<newline>''),
                  snd m @ [LogError ''Full research pipeline failed''])
      | Inr x \<Rightarrow> (Inr x, snd m))"
    by (simp only: run_full_research_def try_handler rt Let_def)
  then show ?thesis
    by (cases r) (simp_all add: rt u xv bind_run_Inl bind_run_Inr Let_def)
qed

lemma scenario_no_keys_init:
  "fst (ResearchSystem_init scenario_no_keys) =
     Inl (Exc ''ValueError'' ''Missing GROQ_API_KEY or TAVILY_API_KEY'')"
  by (simp add: ResearchSystem_init_def ResearchAgent_init_def scenario_no_keys_def
        scenario_def secrets_get_def lift_run_def truthy_def raise_run_def bind_run_Inl
        bind_run_Inr)

section \<open>The claims\<close>

subsection \<open>C2: the pipeline never raises\<close>

text \<open>
  C2. For every topic and whatever the providers do (the construction of the clients, the
  searches, the summariser, the report model, each of which may raise any error),
  \<open>run_full_research\<close> returns a text and raises nothing. An error that no stage has
  handled can only come from the construction of \<open>ResearchSystem\<close>; it is turned into
  the text that begins with the heading \<open># Research Failed\<close> and carries the message of
  the error. When the construction succeeds the result is what \<open>create_report\<close> returns.
\<close>

theorem run_full_research_never_raises:
  "\<exists>s. fst (run_full_research env topic) = Inr s \<and>
       (\<forall>e. fst (ResearchSystem_init env) = Inl e \<longrightarrow>
            s = ''# Research Failed'' @ ''\<newline>\<newline>An unexpected error occurred: ''
                @ str_exn e @ ''\<newline>'') \<and>
       (\<forall>system. fst (ResearchSystem_init env) = Inr system \<longrightarrow>
            Inr s = fst (create_report env (research_data env topic) topic))"
proof (cases "fst (ResearchSystem_init env)")
  case (Inl e)
  then show ?thesis by (simp add: run_full_research_eq)
next
  case (Inr system)
  obtain x where "fst (create_report env (research_data env topic) topic) = Inr x"
    using create_report_returns by blast
  with Inr show ?thesis by (simp add: run_full_research_eq)
qed

theorem run_full_research_never_raises_witness:
  "fst (run_full_research scenario_no_keys ''AI'') =
     Inr ''# Research Failed\<newline>\<newline>An unexpected error occurred: Missing GROQ_API_KEY or TAVILY_API_KEY\<newline>''"
  using run_full_research_never_raises [of scenario_no_keys "''AI''"]
  by (auto simp: scenario_no_keys_init str_exn_def)

subsection \<open>C7: the scenario of three summaries\<close>

lemma format_item_TCU: "format_item item_TCU = text_TCU"
  by (simp add: format_item_def item_TCU_def text_TCU_def dict_get_def)

lemma web_text_TCU:
  assumes "tavily_search env q = Inr resp" and "resp ''results'' = Some [item_TCU]"
  shows "web_text env q = text_TCU"
proof -
  have "dict_get resp ''results'' [] = [item_TCU]"
    using assms(2) by (simp add: dict_get_def)
  then show ?thesis
    using assms(1) by (simp add: web_text_finds format_item_TCU)
qed

lemma text_TCU_not_sentinel: "text_TCU \<noteq> ''No results.''"
  by (simp add: text_TCU_def)

text \<open>
  C7. Topic \<open>AI in Healthcare\<close>; the search returns the single result
  \<open>{title: T, content: C, url: U}\<close> for every sub-query and the summariser returns
  \<open>sum\<close> on every call. Then \<open>research_topic\<close> returns the three summaries joined by
  the separator, one per sub-query: the three sub-queries are searched in their order and
  the summariser is called three times.
\<close>

theorem research_topic_concrete_scenario:
  assumes "\<forall>q\<in>set (queries ''AI in Healthcare'').
             \<exists>resp. tavily_search env q = Inr resp \<and> resp ''results'' = Some [item_TCU]"
      and "\<forall>s p. llm_invoke env s p = Inr ''sum''"
  shows "fst (research_topic env ''AI in Healthcare'') =
           Inr ''sum\<newline>\<newline>---\<newline>\<newline>sum\<newline>\<newline>---\<newline>\<newline>sum'' \<and>
         search_calls (snd (research_topic env ''AI in Healthcare'')) =
           [''AI in Healthcare recent developments'',
            ''AI in Healthcare key players and companies'',
            ''AI in Healthcare major challenges and opportunities''] \<and>
         length (summarizer_calls (snd (research_topic env ''AI in Healthcare''))) = 3"
proof -
  have w: "web_text env q = text_TCU" if "q \<in> set (queries ''AI in Healthcare'')" for q
    using assms(1) that web_text_TCU by blast
  have r: "\<not> search_raises env q" if "q \<in> set (queries ''AI in Healthcare'')" for q
    using assms(1) that by (auto simp: search_raises_def)
  have s: "summary_of env ''AI in Healthcare'' q = Inr ''sum''" for q
    by (simp add: summary_of_def assms(2))
  have loop: "research_loop env ''AI in Healthcare'' (queries ''AI in Healthcare'') [] =
      (Inr [''sum'', ''sum'', ''sum''],
       [Search ''AI in Healthcare recent developments'',
        Invoke system_message (summary_prompt ''AI in Healthcare''
          ''AI in Healthcare recent developments'' text_TCU),
        Search ''AI in Healthcare key players and companies'',
        Invoke system_message (summary_prompt ''AI in Healthcare''
          ''AI in Healthcare key players and companies'' text_TCU),
        Search ''AI in Healthcare major challenges and opportunities'',
        Invoke system_message (summary_prompt ''AI in Healthcare''
          ''AI in Healthcare major challenges and opportunities'' text_TCU)])"
    using w r s
    by (simp add: queries_def research_loop_Cons text_TCU_not_sentinel search_web_trace)
  show ?thesis
    using assms(1)
    by (simp add: research_topic_eq loop separator_def)
qed

theorem research_topic_concrete_scenario_witness:
  "fst (research_topic scenario ''AI in Healthcare'') =
     Inr ''sum\<newline>\<newline>---\<newline>\<newline>sum\<newline>\<newline>---\<newline>\<newline>sum''"
  using research_topic_concrete_scenario [of scenario]
  by (simp add: scenario_def)

subsection \<open>C8: the content of a result is cut at 1500 characters\<close>

text \<open>
  C8. When the search returns results, the text of \<open>_search_web\<close> (which is the text put
  into the summarisation prompt) is the blocks of the results joined by newlines, and the
  block of a result with content \<open>c\<close> embeds \<open>c\<close> itself when \<open>c\<close> has at most 1500
  characters and exactly the first 1500 characters of \<open>c\<close> when it has more.
\<close>

theorem search_web_truncates_content:
  assumes "tavily_search env q = Inr resp"
      and "resp ''results'' = Some items"
      and "it \<in> set items"
      and "it ''content'' = Some c"
  shows "\<exists>embedded.
           fst (search_web env q) = Inr (str_join ''\<newline>'' (map format_item items)) \<and>
           web_text env q = str_join ''\<newline>'' (map format_item items) \<and>
           format_item it =
             ''Title: '' @ dict_get it ''title'' ''N/A'' @ ''\<newline>Content: '' @ embedded
             @ ''\<newline>URL: '' @ dict_get it ''url'' ''N/A'' @ ''\<newline>---'' \<and>
           (1500 < length c \<longrightarrow> embedded = take 1500 c \<and> length embedded = 1500) \<and>
           (length c \<le> 1500 \<longrightarrow> embedded = c)"
proof -
  have items: "dict_get resp ''results'' [] = items" "items \<noteq> []"
    using assms(2,3) by (auto simp: dict_get_def)
  have wt: "web_text env q = str_join ''\<newline>'' (map format_item items)"
    using assms(1) items by (simp add: web_text_finds)
  have block: "format_item it =
      ''Title: '' @ dict_get it ''title'' ''N/A'' @ ''\<newline>Content: '' @ take 1500 c
      @ ''\<newline>URL: '' @ dict_get it ''url'' ''N/A'' @ ''\<newline>---''"
    using assms(4) by (simp add: format_item_def dict_get_def)
  have "1500 < length c \<longrightarrow> length (take 1500 c) = 1500" by simp
  moreover have "length c \<le> 1500 \<longrightarrow> take 1500 c = c" by simp
  ultimately show ?thesis
    using wt block search_web_web_text [of env q] by (intro exI [of _ "take 1500 c"]) simp
qed

lemma scenario_long_content_search:
  "tavily_search scenario_long_content q = Inr [''results'' \<mapsto> [item_long]]"
  by (simp add: scenario_long_content_def)

theorem search_web_truncates_content_witness:
  "fst (search_web scenario_long_content ''q'') =
     Inr (''Title: T\<newline>Content: '' @ replicate 1500 CHR ''a'' @ ''\<newline>URL: U\<newline>---'')"
  using search_web_truncates_content
    [of scenario_long_content "''q''" "[''results'' \<mapsto> [item_long]]" "[item_long]" item_long
        "replicate 1501 CHR ''a''"]
  by (simp add: scenario_long_content_search dict_get_def item_long_def)

subsection \<open>C10: results with missing fields\<close>

text \<open>
  C10. Whenever the provider answers, \<open>_search_web\<close> returns without an exception having
  occurred (the trace is the call alone, the handler did not run), whatever keys the results
  lack: a missing \<open>title\<close>, \<open>content\<close> or \<open>url\<close> is printed as \<open>N/A\<close>. The default
  for the content goes through the same slice, which leaves its three characters as they
  are. The values that are present are texts, as in the provider's schema.
\<close>

theorem search_web_missing_fields:
  assumes "tavily_search env q = Inr resp"
  shows "search_web env q =
           (Inr (if dict_get resp ''results'' [] = [] then ''No results.''
                 else str_join ''\<newline>'' (map format_item (dict_get resp ''results'' []))),
            [Search q]) \<and>
         (\<forall>it. format_item it =
            ''Title: '' @ (case it ''title'' of None \<Rightarrow> ''N/A'' | Some t \<Rightarrow> t)
            @ ''\<newline>Content: '' @ (case it ''content'' of None \<Rightarrow> ''N/A'' | Some c \<Rightarrow> take 1500 c)
            @ ''\<newline>URL: '' @ (case it ''url'' of None \<Rightarrow> ''N/A'' | Some u \<Rightarrow> u)
            @ ''\<newline>---'') \<and>
         take 1500 ''N/A'' = ''N/A''"
proof -
  have "format_item it =
      ''Title: '' @ (case it ''title'' of None \<Rightarrow> ''N/A'' | Some t \<Rightarrow> t)
      @ ''\<newline>Content: '' @ (case it ''content'' of None \<Rightarrow> ''N/A'' | Some c \<Rightarrow> take 1500 c)
      @ ''\<newline>URL: '' @ (case it ''url'' of None \<Rightarrow> ''N/A'' | Some u \<Rightarrow> u)
      @ ''\<newline>---''" for it
    by (simp add: format_item_def dict_get_def split: option.split)
  moreover have "search_web env q =
           (Inr (if dict_get resp ''results'' [] = [] then ''No results.''
                 else str_join ''\<newline>'' (map format_item (dict_get resp ''results'' []))),
            [Search q])"
    using assms by (simp add: search_web_empty search_web_items)
  ultimately show ?thesis by simp
qed

theorem search_web_missing_fields_witness:
  "search_web scenario_missing_fields ''q'' =
     (Inr ''Title: N/A\<newline>Content: N/A\<newline>URL: N/A\<newline>---'', [Search ''q''])"
  using search_web_missing_fields
    [of scenario_missing_fields "''q''" "[''results'' \<mapsto> [Map.empty]]"]
  by (simp add: scenario_missing_fields_def dict_get_def)

subsection \<open>C4: missing credentials\<close>

lemma ResearchAgent_init_missing:
  assumes "secrets_get env ''GROQ_API_KEY'' = Inr groq"
      and "secrets_get env ''TAVILY_API_KEY'' = Inr tavily"
      and "\<not> (truthy groq \<and> truthy tavily)"
  shows "ResearchAgent_init env =
           (Inl (Exc ''ValueError'' ''Missing GROQ_API_KEY or TAVILY_API_KEY''), [])"
  using assms
  by (auto simp: ResearchAgent_init_def lift_run_def bind_run_Inr raise_run_def)

lemma AnalystAgent_init_missing:
  assumes "secrets_get env ''GEMINI_API_KEY'' = Inr gemini"
      and "\<not> truthy gemini"
  shows "AnalystAgent_init env = (Inl (Exc ''ValueError'' ''Missing GEMINI_API_KEY''), [])"
  using assms
  by (simp add: AnalystAgent_init_def lift_run_def bind_run_Inr raise_run_def)

text \<open>
  C4, as the code has it. Where the lookups \<open>st.secrets.get(K, os.getenv(K))\<close> of the
  constructor return: \<open>ResearchAgent\<close> checks its two keys together, and when the search
  key or the research-model key is absent (or empty) its construction raises a ValueError
  with the one message \<open>Missing GROQ_API_KEY or TAVILY_API_KEY\<close>, which names both keys
  and does not tell which of them is missing. \<open>AnalystAgent\<close> raises a ValueError with the
  message \<open>Missing GEMINI_API_KEY\<close> when the report-model key is absent (or empty).
  Neither constructor catches the error, and the construction of \<open>ResearchSystem\<close> lets
  it through as well.
\<close>

theorem missing_credentials_raise:
  "(\<forall>groq tavily.
      secrets_get env ''GROQ_API_KEY'' = Inr groq \<and>
      secrets_get env ''TAVILY_API_KEY'' = Inr tavily \<and>
      \<not> (truthy groq \<and> truthy tavily)
      \<longrightarrow> fst (ResearchAgent_init env) =
            Inl (Exc ''ValueError'' ''Missing GROQ_API_KEY or TAVILY_API_KEY'') \<and>
          fst (ResearchSystem_init env) =
            Inl (Exc ''ValueError'' ''Missing GROQ_API_KEY or TAVILY_API_KEY'')) \<and>
   (\<forall>gemini.
      secrets_get env ''GEMINI_API_KEY'' = Inr gemini \<and> \<not> truthy gemini
      \<longrightarrow> fst (AnalystAgent_init env) = Inl (Exc ''ValueError'' ''Missing GEMINI_API_KEY'') \<and>
          (\<forall>r. fst (ResearchAgent_init env) = Inr r \<longrightarrow>
               fst (ResearchSystem_init env) =
                 Inl (Exc ''ValueError'' ''Missing GEMINI_API_KEY'')))"
proof -
  have research: "fst (ResearchAgent_init env) =
        Inl (Exc ''ValueError'' ''Missing GROQ_API_KEY or TAVILY_API_KEY'') \<and>
      fst (ResearchSystem_init env) =
        Inl (Exc ''ValueError'' ''Missing GROQ_API_KEY or TAVILY_API_KEY'')"
    if "secrets_get env ''GROQ_API_KEY'' = Inr groq"
      and "secrets_get env ''TAVILY_API_KEY'' = Inr tavily"
      and "\<not> (truthy groq \<and> truthy tavily)"
    for groq tavily
    by (simp add: ResearchAgent_init_missing [OF that] ResearchSystem_init_def bind_run_Inl)
  have analyst: "fst (AnalystAgent_init env) = Inl (Exc ''ValueError'' ''Missing GEMINI_API_KEY'')"
    if "secrets_get env ''GEMINI_API_KEY'' = Inr gemini" and "\<not> truthy gemini" for gemini
    by (simp add: AnalystAgent_init_missing [OF that])
  have system: "fst (ResearchSystem_init env) = Inl (Exc ''ValueError'' ''Missing GEMINI_API_KEY'')"
    if g: "secrets_get env ''GEMINI_API_KEY'' = Inr gemini" "\<not> truthy gemini"
      and r: "fst (ResearchAgent_init env) = Inr r"
    for gemini r
  proof -
    obtain t where "ResearchAgent_init env = (Inr r, t)"
      using r by (cases "ResearchAgent_init env") simp
    then show ?thesis
      by (simp add: ResearchSystem_init_def bind_run_Inr bind_run_Inl
            AnalystAgent_init_missing [OF g])
  qed
  show ?thesis
    using research analyst system by blast
qed

lemma scenario_no_keys_lookup: "secrets_get scenario_no_keys k = Inr None"
  by (simp add: scenario_no_keys_def scenario_def secrets_get_def)

theorem missing_credentials_raise_witness:
  "fst (ResearchAgent_init scenario_no_keys) =
     Inl (Exc ''ValueError'' ''Missing GROQ_API_KEY or TAVILY_API_KEY'') \<and>
   fst (AnalystAgent_init scenario_no_keys) = Inl (Exc ''ValueError'' ''Missing GEMINI_API_KEY'')"
  using missing_credentials_raise [of scenario_no_keys]
  by (simp add: scenario_no_keys_lookup truthy_def)

text \<open>
  The claim as written fails where only the search key is absent: the message of the error
  does not contain \<open>Missing TAVILY_API_KEY\<close>.
\<close>

theorem missing_tavily_key_counterexample:
  "secrets_get scenario_no_tavily_key ''GROQ_API_KEY'' = Inr (Some ''gk'') \<and>
   secrets_get scenario_no_tavily_key ''TAVILY_API_KEY'' = Inr None \<and>
   fst (ResearchAgent_init scenario_no_tavily_key) =
     Inl (Exc ''ValueError'' ''Missing GROQ_API_KEY or TAVILY_API_KEY'') \<and>
   \<not> sublist ''Missing TAVILY_API_KEY''
        (str_exn (Exc ''ValueError'' ''Missing GROQ_API_KEY or TAVILY_API_KEY''))"
proof -
  have "\<not> sublist ''Missing TAVILY_API_KEY''
          (str_exn (Exc ''ValueError'' ''Missing GROQ_API_KEY or TAVILY_API_KEY''))"
    by code_simp
  moreover have g: "secrets_get scenario_no_tavily_key ''GROQ_API_KEY'' = Inr (Some ''gk'')"
    and t: "secrets_get scenario_no_tavily_key ''TAVILY_API_KEY'' = Inr None"
    by (simp_all add: scenario_no_tavily_key_def scenario_def secrets_get_def)
  moreover have "fst (ResearchAgent_init scenario_no_tavily_key) =
     Inl (Exc ''ValueError'' ''Missing GROQ_API_KEY or TAVILY_API_KEY'')"
    by (simp add: ResearchAgent_init_missing [OF g t] truthy_def)
  ultimately show ?thesis by simp
qed

subsection \<open>Calls of the summariser in a trace\<close>

lemma search_web_summarizer_calls: "summarizer_calls (snd (search_web env q)) = []"
  by (simp add: search_web_trace)

lemma ResearchSystem_init_summarizer_calls:
  "summarizer_calls (snd (ResearchSystem_init env)) = []"
proof -
  have r: "summarizer_calls (snd (ResearchAgent_init env)) = []"
    by (simp add: ResearchAgent_init_def lift_run_def raise_run_def bind_run_def call_def
          return_run_def split: sum.split)
  have a: "summarizer_calls (snd (AnalystAgent_init env)) = []"
    by (simp add: AnalystAgent_init_def lift_run_def raise_run_def bind_run_def call_def
          return_run_def split: sum.split)
  obtain x t where xt: "ResearchAgent_init env = (x, t)" by (cases "ResearchAgent_init env")
  obtain y u where yu: "AnalystAgent_init env = (y, u)" by (cases "AnalystAgent_init env")
  from r a xt yu have "summarizer_calls t = []" "summarizer_calls u = []" by simp_all
  then show ?thesis
    by (cases x; cases y)
       (simp_all add: ResearchSystem_init_def xt yu bind_run_def return_run_def
          summarizer_calls_append)
qed

lemma create_report_summarizer_calls:
  "summarizer_calls (snd (create_report env d topic)) = []"
  by (simp add: create_report_eq split: sum.split)

lemma run_full_research_report_calls:
  assumes "fst (ResearchSystem_init env) = Inr system"
  shows "report_calls (snd (run_full_research env topic)) =
           [report_prompt env (research_data env topic) topic]"
  using assms
  by (simp add: run_full_research_eq report_calls_append ResearchSystem_init_trace
        research_topic_report_calls create_report_report_calls)

lemma run_full_research_summarizer_calls:
  "summarizer_calls (snd (run_full_research env topic)) =
     (if isl (fst (ResearchSystem_init env)) then []
      else summarizer_calls (snd (research_topic env topic)))"
  by (simp add: run_full_research_eq summarizer_calls_append
        ResearchSystem_init_summarizer_calls create_report_summarizer_calls split: sum.split)

subsection \<open>C5: no results for any sub-query\<close>

lemma research_loop_all_empty:
  assumes "\<forall>q\<in>set qs. search_empty env q"
  shows "research_loop env topic qs acc = (Inr acc, map Search qs)"
  using assms
proof (induction qs)
  case Nil
  show ?case by simp
next
  case (Cons q qs)
  then have "search_empty env q" by simp
  then have "web_text env q = ''No results.''" and "\<not> search_raises env q"
    by (auto simp: web_text_empty search_empty_def search_raises_def split: sum.splits)
  with Cons show ?case
    by (simp add: research_loop_Cons search_web_trace)
qed

text \<open>
  C5. If the search returns no result for each of the three sub-queries, every
  \<open>_search_web\<close> returns the sentinel \<open>No results.\<close>, \<open>research_topic\<close> returns the text
  \<open>Could not find sufficient information on the topic.\<close> after the three searches and
  nothing else (no call of the summariser, in the research stage or anywhere in the run),
  and the pipeline, once its components are constructed, calls the report model exactly
  once, with the prompt that carries this text as its research data.
\<close>

theorem research_topic_no_results:
  assumes "\<forall>q\<in>set (queries topic). search_empty env q"
  shows "(\<forall>q\<in>set (queries topic). fst (search_web env q) = Inr ''No results.'') \<and>
         research_topic env topic =
           (Inr ''Could not find sufficient information on the topic.'',
            map Search (queries topic)) \<and>
         summarizer_calls (snd (research_topic env topic)) = [] \<and>
         summarizer_calls (snd (run_full_research env topic)) = [] \<and>
         (\<forall>system. fst (ResearchSystem_init env) = Inr system \<longrightarrow>
            report_calls (snd (run_full_research env topic)) =
              [report_prompt env ''Could not find sufficient information on the topic.'' topic])"
proof -
  have sentinel: "\<forall>q\<in>set (queries topic). fst (search_web env q) = Inr ''No results.''"
    using assms by (simp add: search_web_web_text web_text_empty)
  have rt: "research_topic env topic =
           (Inr ''Could not find sufficient information on the topic.'',
            map Search (queries topic))"
    by (simp add: research_topic_eq research_loop_all_empty [OF assms])
  have no_calls: "summarizer_calls (map Search qs) = []" for qs
    by (induction qs) simp_all
  have data: "research_data env topic = ''Could not find sufficient information on the topic.''"
    by (simp add: research_data_def rt)
  show ?thesis
    using sentinel
    by (simp add: rt no_calls run_full_research_summarizer_calls
          run_full_research_report_calls data)
qed

lemma scenario_init_ok:
  assumes "secrets env = secrets scenario" "environ env = environ scenario"
    "ChatGroq_new env = ChatGroq_new scenario" "TavilyClient_new env = TavilyClient_new scenario"
    "genai_configure env = genai_configure scenario"
    "GenerativeModel_new env = GenerativeModel_new scenario"
  shows "ResearchSystem_init env =
     (Inr \<lparr>researcher = \<lparr>groq_api_key = Some ''gk'', tavily_api_key = Some ''tk''\<rparr>,
           analyst = \<lparr>gemini_key = Some ''gk2''\<rparr>\<rparr>,
      [Init ''ChatGroq'', Init ''TavilyClient'', Init ''genai.configure'',
       Init ''GenerativeModel''])"
  using assms
  by (simp add: ResearchSystem_init_def ResearchAgent_init_def AnalystAgent_init_def
        secrets_get_def lift_run_def truthy_def scenario_def call_def bind_run_Inr
        return_run_def)

theorem research_topic_no_results_witness:
  "research_topic scenario_no_results ''AI'' =
     (Inr ''Could not find sufficient information on the topic.'',
      [Search ''AI recent developments'', Search ''AI key players and companies'',
       Search ''AI major challenges and opportunities'']) \<and>
   report_calls (snd (run_full_research scenario_no_results ''AI'')) =
     [report_prompt scenario_no_results
        ''Could not find sufficient information on the topic.'' ''AI'']"
proof -
  have "\<forall>q\<in>set (queries ''AI''). search_empty scenario_no_results q"
    by (simp add: search_empty_def scenario_no_results_def dict_get_def)
  moreover have "\<exists>system. fst (ResearchSystem_init scenario_no_results) = Inr system"
    by (simp add: scenario_init_ok scenario_no_results_def)
  ultimately show ?thesis
    using research_topic_no_results [of "''AI''" scenario_no_results]
    by (auto simp: queries_def)
qed

subsection \<open>C6: the successful run\<close>

lemma ResearchSystem_init_ok:
  assumes "secrets_get env ''GROQ_API_KEY'' = Inr groq" and "truthy groq"
      and "secrets_get env ''TAVILY_API_KEY'' = Inr tavily" and "truthy tavily"
      and "secrets_get env ''GEMINI_API_KEY'' = Inr gemini" and "truthy gemini"
      and "ChatGroq_new env (the groq) = Inr ()"
      and "TavilyClient_new env (the tavily) = Inr ()"
      and "genai_configure env (the gemini) = Inr ()"
      and "GenerativeModel_new env ''gemini-1.5-flash-latest'' = Inr ()"
  shows "\<exists>system. fst (ResearchSystem_init env) = Inr system"
  using assms
  by (simp add: ResearchSystem_init_def ResearchAgent_init_def AnalystAgent_init_def
        lift_run_def call_def bind_run_Inr return_run_def)

text \<open>
  What the code does where the lookups of the three credentials return them: if moreover
  the four constructions of the clients succeed and the call of the report model succeeds
  with the text \<open>report\<close>, then \<open>run_full_research\<close> returns exactly \<open>report\<close>, and the
  report model is called exactly once in the run, whatever the searches and the summariser
  did.
\<close>

lemma run_full_research_returns_report:
  assumes "secrets_get env ''GROQ_API_KEY'' = Inr groq" and "truthy groq"
      and "secrets_get env ''TAVILY_API_KEY'' = Inr tavily" and "truthy tavily"
      and "secrets_get env ''GEMINI_API_KEY'' = Inr gemini" and "truthy gemini"
      and "ChatGroq_new env (the groq) = Inr ()"
      and "TavilyClient_new env (the tavily) = Inr ()"
      and "genai_configure env (the gemini) = Inr ()"
      and "GenerativeModel_new env ''gemini-1.5-flash-latest'' = Inr ()"
      and "generate_content env (report_prompt env (research_data env topic) topic) = Inr report"
  shows "fst (run_full_research env topic) = Inr report \<and>
         report_calls (snd (run_full_research env topic)) =
           [report_prompt env (research_data env topic) topic]"
proof -
  obtain system where ok: "fst (ResearchSystem_init env) = Inr system"
    using ResearchSystem_init_ok [OF assms(1-10)] by blast
  have "fst (run_full_research env topic) = Inr report"
    using ok assms(11) by (simp add: run_full_research_eq create_report_eq)
  then show ?thesis
    using run_full_research_report_calls [OF ok] by simp
qed

lemma scenario_research_data: "research_data scenario ''AI'' =
    ''sum\<newline>\<newline>---\<newline>\<newline>sum\<newline>\<newline>---\<newline>\<newline>sum''"
proof -
  have w: "web_text scenario q = text_TCU" for q
    by (rule web_text_TCU [of _ _ "[''results'' \<mapsto> [item_TCU]]"])
       (simp_all add: scenario_def)
  have s: "summary_of scenario ''AI'' q = Inr ''sum''" for q
    by (simp add: summary_of_def scenario_def)
  have "fst (research_loop scenario ''AI'' (queries ''AI'') []) = Inr [''sum'', ''sum'', ''sum'']"
    by (simp add: queries_def research_loop_Cons w s text_TCU_not_sentinel)
  then show ?thesis
    by (simp add: research_data_def research_topic_eq separator_def)
qed

lemma run_full_research_scenario:
  "fst (run_full_research scenario ''AI'') = Inr ''## Report'' \<and>
   report_calls (snd (run_full_research scenario ''AI'')) =
     [report_prompt scenario
        ''sum\<newline>\<newline>---\<newline>\<newline>sum\<newline>\<newline>---\<newline>\<newline>sum'' ''AI'']"
proof -
  have "secrets_get scenario ''GROQ_API_KEY'' = Inr (Some ''gk'')"
    and "truthy (Some ''gk'')"
    and "secrets_get scenario ''TAVILY_API_KEY'' = Inr (Some ''tk'')"
    and "truthy (Some ''tk'')"
    and "secrets_get scenario ''GEMINI_API_KEY'' = Inr (Some ''gk2'')"
    and "truthy (Some ''gk2'')"
    and "ChatGroq_new scenario (the (Some ''gk'')) = Inr ()"
    and "TavilyClient_new scenario (the (Some ''tk'')) = Inr ()"
    and "genai_configure scenario (the (Some ''gk2'')) = Inr ()"
    and "GenerativeModel_new scenario ''gemini-1.5-flash-latest'' = Inr ()"
    and "generate_content scenario (report_prompt scenario (research_data scenario ''AI'') ''AI'')
           = Inr ''## Report''"
    by (simp_all add: scenario_def secrets_get_def truthy_def)
  from run_full_research_returns_report [OF this]
  show ?thesis by (simp add: scenario_research_data)
qed

lemma ResearchSystem_init_secrets_error:
  assumes "secrets_get env ''GROQ_API_KEY'' = Inl e"
  shows "ResearchSystem_init env = (Inl e, [])"
  using assms
  by (simp add: ResearchSystem_init_def ResearchAgent_init_def lift_run_def bind_run_Inl)

text \<open>
  C6. The claim: with the three credentials present and every provider call succeeding,
  \<open>run_full_research\<close> returns the text of the report model, which is called exactly once.
  The code breaks it at the following input. The three keys are in the environment, which
  the constructors name as the fallback of their lookup \<open>st.secrets.get(K, os.getenv(K))\<close>,
  every search, every summary and the report would succeed, and the secrets store raises
  on the lookup, as it does where no secrets file exists. The error leaves the constructor
  of \<open>ResearchAgent\<close> before the environment is ever used: the run returns the
  \<open># Research Failed\<close> text with the message of the secrets store, and the report model
  is not called at all.
\<close>

theorem run_full_research_no_secrets_file:
  "environ scenario_no_secrets_file ''GROQ_API_KEY'' = Some ''gk'' \<and>
   environ scenario_no_secrets_file ''TAVILY_API_KEY'' = Some ''tk'' \<and>
   environ scenario_no_secrets_file ''GEMINI_API_KEY'' = Some ''gk2'' \<and>
   run_full_research scenario_no_secrets_file ''AI'' =
     (Inr ''# Research Failed\<newline>\<newline>An unexpected error occurred: No secrets found.\<newline>'',
      [LogError ''Full research pipeline failed'']) \<and>
   report_calls (snd (run_full_research scenario_no_secrets_file ''AI'')) = []"
proof -
  have "secrets_get scenario_no_secrets_file ''GROQ_API_KEY'' =
      Inl (Exc ''StreamlitSecretNotFoundError'' ''No secrets found.'')"
    by (simp add: secrets_get_def scenario_no_secrets_file_def)
  then have "ResearchSystem_init scenario_no_secrets_file =
      (Inl (Exc ''StreamlitSecretNotFoundError'' ''No secrets found.''), [])"
    by (rule ResearchSystem_init_secrets_error)
  then have "run_full_research scenario_no_secrets_file ''AI'' =
     (Inr ''# Research Failed\<newline>\<newline>An unexpected error occurred: No secrets found.\<newline>'',
      [LogError ''Full research pipeline failed''])"
    by (simp add: run_full_research_eq str_exn_def)
  then show ?thesis
    by (simp add: scenario_no_secrets_file_def scenario_def)
qed

theorem run_full_research_no_secrets_file_witness:
  "fst (run_full_research scenario_no_secrets_file ''AI'') \<noteq> Inr ''## Report''"
  using run_full_research_no_secrets_file by simp

subsection \<open>C9: the report stage always runs\<close>

text \<open>
  C9. Once \<open>ResearchSystem\<close> is constructed, \<open>research_topic\<close> returns a text \<open>d\<close>
  whatever happened in it, \<open>run_full_research\<close> calls the report model exactly once, with
  the prompt built from \<open>d\<close>, and returns what \<open>create_report\<close> returns for \<open>d\<close>. This
  includes the two failure texts: \<open>d\<close> is \<open>Research failed: \<close> followed by the message
  when the loop over the sub-queries raised, and \<open>Could not find sufficient information on
  the topic.\<close> when the loop collected no summary. Nothing between the two stages looks at
  \<open>d\<close>.
\<close>

theorem run_full_research_always_reports:
  assumes "fst (ResearchSystem_init env) = Inr system"
  shows "\<exists>d. fst (research_topic env topic) = Inr d \<and>
             report_calls (snd (run_full_research env topic)) = [report_prompt env d topic] \<and>
             run_full_research env topic =
               (fst (create_report env d topic),
                snd (ResearchSystem_init env) @ snd (research_topic env topic)
                @ snd (create_report env d topic)) \<and>
             (\<forall>e. fst (research_loop env topic (queries topic) []) = Inl e \<longrightarrow>
                  d = ''Research failed: '' @ str_exn e) \<and>
             (fst (research_loop env topic (queries topic) []) = Inr [] \<longrightarrow>
                  d = ''Could not find sufficient information on the topic.'')"
proof (intro exI [of _ "research_data env topic"] conjI)
  show "fst (research_topic env topic) = Inr (research_data env topic)"
    by (rule research_topic_research_data)
  show "report_calls (snd (run_full_research env topic)) =
          [report_prompt env (research_data env topic) topic]"
    by (rule run_full_research_report_calls [OF assms])
  show "run_full_research env topic =
          (fst (create_report env (research_data env topic) topic),
           snd (ResearchSystem_init env) @ snd (research_topic env topic)
           @ snd (create_report env (research_data env topic) topic))"
    using assms by (simp add: run_full_research_eq)
  show "\<forall>e. fst (research_loop env topic (queries topic) []) = Inl e \<longrightarrow>
          research_data env topic = ''Research failed: '' @ str_exn e"
    by (simp add: research_data_def research_topic_eq)
  show "fst (research_loop env topic (queries topic) []) = Inr [] \<longrightarrow>
          research_data env topic = ''Could not find sufficient information on the topic.''"
    by (simp add: research_data_def research_topic_eq)
qed

lemma scenario_summarizer_fails_loop:
  "research_loop scenario_summarizer_fails ''AI'' (queries ''AI'') [] =
     (Inl (Exc ''RuntimeError'' ''boom''),
      [Search ''AI recent developments'',
       Invoke system_message (summary_prompt ''AI'' ''AI recent developments'' text_TCU)])"
proof -
  have w: "web_text scenario_summarizer_fails q = text_TCU" for q
    by (rule web_text_TCU [of _ _ "[''results'' \<mapsto> [item_TCU]]"])
       (simp_all add: scenario_summarizer_fails_def scenario_def)
  have r: "\<not> search_raises scenario_summarizer_fails q" for q
    by (simp add: search_raises_def scenario_summarizer_fails_def scenario_def)
  have s: "summary_of scenario_summarizer_fails ''AI'' q = Inl (Exc ''RuntimeError'' ''boom'')"
    for q
    by (simp add: summary_of_def scenario_summarizer_fails_def)
  show ?thesis
    by (simp add: queries_def research_loop_Cons w r s text_TCU_not_sentinel search_web_trace)
qed

theorem run_full_research_always_reports_witness:
  "fst (research_topic scenario_summarizer_fails ''AI'') = Inr ''Research failed: boom'' \<and>
   report_calls (snd (run_full_research scenario_summarizer_fails ''AI'')) =
     [report_prompt scenario_summarizer_fails ''Research failed: boom'' ''AI'']"
proof -
  have "\<exists>system. fst (ResearchSystem_init scenario_summarizer_fails) = Inr system"
    by (simp add: scenario_init_ok scenario_summarizer_fails_def)
  then obtain system where "fst (ResearchSystem_init scenario_summarizer_fails) = Inr system"
    by blast
  from run_full_research_always_reports [OF this, of "''AI''"]
  show ?thesis
    by (auto simp: scenario_summarizer_fails_loop str_exn_def)
qed

subsection \<open>Which handler ran\<close>

lemma research_loop_error_logs:
  "set (error_logs (snd (research_loop env topic qs acc))) \<subseteq> {''Search error''}"
proof (induction qs arbitrary: acc)
  case Nil
  show ?case by simp
next
  case (Cons q qs)
  have "set (error_logs (snd (research_loop env topic qs a))) \<subseteq> {''Search error''}" for a
    by (rule Cons.IH)
  then show ?case
    by (simp add: research_loop_Cons error_logs_append search_web_trace split: sum.split)
qed

lemma research_topic_error_logs:
  "set (error_logs (snd (research_topic env topic))) \<subseteq> {''Search error'', ''Research error''}"
  using research_loop_error_logs [of env topic "queries topic" "[]"]
  by (auto simp: research_topic_eq error_logs_append split: sum.split)

lemma create_report_error_logs:
  "set (error_logs (snd (create_report env d topic))) \<subseteq> {''Report creation error''}"
  by (simp add: create_report_eq split: sum.split)

text \<open>The handler of the pipeline runs exactly when the construction raised.\<close>

lemma pipeline_handler_iff:
  "''Full research pipeline failed'' \<in> set (error_logs (snd (run_full_research env topic)))
     \<longleftrightarrow> isl (fst (ResearchSystem_init env))"
proof (cases "fst (ResearchSystem_init env)")
  case (Inl e)
  then show ?thesis
    by (simp add: run_full_research_eq error_logs_append)
next
  case (Inr system)
  have "''Full research pipeline failed'' \<notin> set (error_logs (snd (research_topic env topic)))"
    using research_topic_error_logs [of env topic] by auto
  moreover have "''Full research pipeline failed'' \<notin>
      set (error_logs (snd (create_report env (research_data env topic) topic)))"
    using create_report_error_logs [of env "research_data env topic" topic] by auto
  ultimately show ?thesis
    using Inr
    by (simp add: run_full_research_eq error_logs_append ResearchSystem_init_trace)
qed

subsection \<open>C3: the summariser raises\<close>

lemma research_loop_ok_searches:
  assumes "\<forall>q\<in>set qs. web_text env q \<noteq> ''No results.'' \<longrightarrow>
             (\<exists>c. summary_of env topic q = Inr c)"
  shows "search_calls (snd (research_loop env topic qs acc)) = qs"
  using assms
proof (induction qs arbitrary: acc)
  case Nil
  show ?case by simp
next
  case (Cons q qs)
  then show ?case
    by (auto simp: research_loop_Cons search_calls_append search_web_search_calls)
qed

lemma research_loop_abort:
  assumes "\<forall>q\<in>set pre. web_text env q \<noteq> ''No results.'' \<longrightarrow>
             (\<exists>c. summary_of env topic q = Inr c)"
      and "web_text env qf \<noteq> ''No results.''"
      and "summary_of env topic qf = Inl e"
  shows "\<exists>t. research_loop env topic (pre @ qf # post) acc =
           (Inl e, t @ [Invoke system_message (summary_prompt topic qf (web_text env qf))]) \<and>
           search_calls t = pre @ [qf]"
proof -
  obtain ss where ss: "fst (research_loop env topic pre acc) = Inr ss"
    using research_loop_ok [OF assms(1)] by blast
  define t1 where "t1 = snd (research_loop env topic pre acc)"
  have pre: "research_loop env topic pre acc = (Inr ss, t1)"
    by (simp add: t1_def ss [symmetric])
  have t1: "search_calls t1 = pre"
    unfolding t1_def by (rule research_loop_ok_searches [OF assms(1)])
  have "research_loop env topic (pre @ qf # post) acc =
      (Inl e, (t1 @ snd (search_web env qf))
              @ [Invoke system_message (summary_prompt topic qf (web_text env qf))])"
    by (simp add: research_loop_append pre bind_run_Inr research_loop_Cons assms(2,3))
  moreover have "search_calls (t1 @ snd (search_web env qf)) = pre @ [qf]"
    by (simp add: search_calls_append t1 search_web_search_calls)
  ultimately show ?thesis by blast
qed

text \<open>
  C3, as the code has it. Suppose the summariser raises \<open>e\<close> on the sub-query \<open>qf\<close>
  (whose search text is not the sentinel), the sub-queries before it having been skipped
  or summarised. Then the loop stops there: the sub-queries after \<open>qf\<close> are not searched
  and no partial result is built. The exception is caught by the \<open>try\<close> block of
  \<open>research_topic\<close> that encloses the whole loop, whose handler logs \<open>Research error\<close>
  and returns the text \<open>Research failed: \<close> followed by the message. The handler of
  \<open>run_full_research\<close> does not run: the pipeline goes on and calls the report model once,
  with the failure text as its research data.
\<close>

theorem research_topic_summarizer_failure:
  assumes "queries topic = pre @ qf # post"
      and "\<forall>q\<in>set pre. web_text env q \<noteq> ''No results.'' \<longrightarrow>
             (\<exists>c. summary_of env topic q = Inr c)"
      and "web_text env qf \<noteq> ''No results.''"
      and "summary_of env topic qf = Inl e"
  shows "fst (research_topic env topic) = Inr (''Research failed: '' @ str_exn e) \<and>
         search_calls (snd (research_topic env topic)) = pre @ [qf] \<and>
         (\<exists>t. snd (research_topic env topic) =
                t @ [Invoke system_message (summary_prompt topic qf (web_text env qf)),
                     LogError ''Research error'']) \<and>
         (\<forall>system. fst (ResearchSystem_init env) = Inr system \<longrightarrow>
            ''Full research pipeline failed'' \<notin>
               set (error_logs (snd (run_full_research env topic))) \<and>
            report_calls (snd (run_full_research env topic)) =
              [report_prompt env (''Research failed: '' @ str_exn e) topic])"
proof -
  obtain t where loop: "research_loop env topic (queries topic) [] =
      (Inl e, t @ [Invoke system_message (summary_prompt topic qf (web_text env qf))])"
    and t: "search_calls t = pre @ [qf]"
    using research_loop_abort [OF assms(2-4), of post "[]"] assms(1) by auto
  have rt: "research_topic env topic =
      (Inr (''Research failed: '' @ str_exn e),
       t @ [Invoke system_message (summary_prompt topic qf (web_text env qf)),
            LogError ''Research error''])"
    by (simp add: research_topic_eq loop)
  have data: "research_data env topic = ''Research failed: '' @ str_exn e"
    by (simp add: research_data_def rt)
  have "search_calls (snd (research_topic env topic)) = pre @ [qf]"
    by (simp add: rt search_calls_append t)
  then show ?thesis
    by (auto simp: rt pipeline_handler_iff run_full_research_report_calls data)
qed

lemma scenario_second_summary_fails_facts:
  "web_text scenario_second_summary_fails q = text_TCU"
  "summary_of scenario_second_summary_fails ''AI'' ''AI recent developments'' = Inr ''sum''"
  "summary_of scenario_second_summary_fails ''AI'' ''AI key players and companies'' =
     Inl (Exc ''RuntimeError'' ''boom'')"
proof -
  show w: "web_text scenario_second_summary_fails q = text_TCU" for q
    by (rule web_text_TCU [of _ _ "[''results'' \<mapsto> [item_TCU]]"])
       (simp_all add: scenario_second_summary_fails_def scenario_def)
  show "summary_of scenario_second_summary_fails ''AI'' ''AI recent developments'' = Inr ''sum''"
    unfolding summary_of_def w
    by (simp add: scenario_second_summary_fails_def summary_prompt_def)
  show "summary_of scenario_second_summary_fails ''AI'' ''AI key players and companies'' =
     Inl (Exc ''RuntimeError'' ''boom'')"
    unfolding summary_of_def w
    by (simp add: scenario_second_summary_fails_def)
qed

theorem research_topic_summarizer_failure_witness:
  "fst (research_topic scenario_second_summary_fails ''AI'') = Inr ''Research failed: boom'' \<and>
   search_calls (snd (research_topic scenario_second_summary_fails ''AI'')) =
     [''AI recent developments'', ''AI key players and companies'']"
  using research_topic_summarizer_failure
    [of "''AI''" "[''AI recent developments'']" "''AI key players and companies''"
        "[''AI major challenges and opportunities'']" scenario_second_summary_fails
        "Exc ''RuntimeError'' ''boom''"]
  by (simp add: queries_def scenario_second_summary_fails_facts text_TCU_not_sentinel
        str_exn_def)

text \<open>
  The claim as written fails on where the exception is caught: here the summariser raises
  on the first sub-query, \<open>research_topic\<close> returns (it does not raise) after its own
  handler has logged \<open>Research error\<close>, and the run ends with the text of the report model,
  the handler of the pipeline never having run.
\<close>

theorem summarizer_failure_counterexample:
  "summary_of scenario_summarizer_fails ''AI'' ''AI recent developments'' =
     Inl (Exc ''RuntimeError'' ''boom'') \<and>
   research_topic scenario_summarizer_fails ''AI'' =
     (Inr ''Research failed: boom'',
      [Search ''AI recent developments'',
       Invoke system_message (summary_prompt ''AI'' ''AI recent developments'' text_TCU),
       LogError ''Research error'']) \<and>
   error_logs (snd (run_full_research scenario_summarizer_fails ''AI'')) = [''Research error''] \<and>
   fst (run_full_research scenario_summarizer_fails ''AI'') = Inr ''## Report''"
proof -
  have s: "summary_of scenario_summarizer_fails ''AI'' ''AI recent developments'' =
     Inl (Exc ''RuntimeError'' ''boom'')"
    by (simp add: summary_of_def scenario_summarizer_fails_def)
  have rt: "research_topic scenario_summarizer_fails ''AI'' =
     (Inr ''Research failed: boom'',
      [Search ''AI recent developments'',
       Invoke system_message (summary_prompt ''AI'' ''AI recent developments'' text_TCU),
       LogError ''Research error''])"
    by (simp add: research_topic_eq scenario_summarizer_fails_loop str_exn_def)
  have data: "research_data scenario_summarizer_fails ''AI'' = ''Research failed: boom''"
    by (simp add: research_data_def rt)
  have init: "ResearchSystem_init scenario_summarizer_fails =
     (Inr \<lparr>researcher = \<lparr>groq_api_key = Some ''gk'', tavily_api_key = Some ''tk''\<rparr>,
           analyst = \<lparr>gemini_key = Some ''gk2''\<rparr>\<rparr>,
      [Init ''ChatGroq'', Init ''TavilyClient'', Init ''genai.configure'',
       Init ''GenerativeModel''])"
    by (simp add: scenario_init_ok scenario_summarizer_fails_def)
  have gen: "generate_content scenario_summarizer_fails p = Inr ''## Report''" for p
    by (simp add: scenario_summarizer_fails_def scenario_def)
  have "run_full_research scenario_summarizer_fails ''AI'' =
     (Inr ''## Report'',
      [Init ''ChatGroq'', Init ''TavilyClient'', Init ''genai.configure'',
       Init ''GenerativeModel'',
       Search ''AI recent developments'',
       Invoke system_message (summary_prompt ''AI'' ''AI recent developments'' text_TCU),
       LogError ''Research error'',
       Generate (report_prompt scenario_summarizer_fails ''Research failed: boom'' ''AI'')])"
    by (simp add: run_full_research_eq init data rt create_report_eq gen)
  then show ?thesis
    using s rt by simp
qed

subsection \<open>C1: one search raises\<close>

lemma summarizer_calls_loop_step:
  "summarizer_calls (snd (search_web env q) @ Invoke s p # t) = (s, p) # summarizer_calls t"
  by (simp add: summarizer_calls_append search_web_summarizer_calls)

lemma research_loop_all_summarised:
  assumes "\<forall>q\<in>set qs. web_text env q \<noteq> ''No results.''"
      and "\<forall>q\<in>set qs. summary_of env topic q = Inr (s q)"
  shows "fst (research_loop env topic qs acc) = Inr (acc @ map s qs) \<and>
         search_calls (snd (research_loop env topic qs acc)) = qs \<and>
         summarizer_calls (snd (research_loop env topic qs acc)) =
           map (\<lambda>q. (system_message, summary_prompt topic q (web_text env q))) qs"
  using assms
proof (induction qs arbitrary: acc)
  case Nil
  show ?case by simp
next
  case (Cons q qs)
  then show ?case
    by (simp add: research_loop_Cons search_calls_append search_web_search_calls
          summarizer_calls_loop_step)
qed

text \<open>
  C1, as the code has it. If the search raises \<open>e\<close> for one of the three sub-queries and
  returns results for the other two, and the summariser succeeds on each of the three
  prompts, then \<open>research_topic\<close> returns three summaries, joined by the separator, in the
  order of the sub-queries. The failed search does not abort the run and is not skipped
  either: \<open>_search_web\<close> turns the error into the text \<open>Search failed: \<close> followed by the
  message, which is not the sentinel \<open>No results.\<close>, so the summariser is called on it
  like on any search text and its answer is one of the three summaries.
\<close>

theorem research_topic_one_search_failure:
  assumes "queries topic = pre @ qf # post"
      and "tavily_search env qf = Inl e"
      and "\<forall>q\<in>set (pre @ post). search_finds env q"
      and "\<forall>q\<in>set (queries topic). \<exists>c. summary_of env topic q = Inr c"
  shows "\<exists>s0 s1 s2.
           map (summary_of env topic) (queries topic) = [Inr s0, Inr s1, Inr s2] \<and>
           fst (research_topic env topic) = Inr (s0 @ separator @ s1 @ separator @ s2) \<and>
           web_text env qf = ''Search failed: '' @ str_exn e \<and>
           search_calls (snd (research_topic env topic)) = queries topic \<and>
           summarizer_calls (snd (research_topic env topic)) =
             map (\<lambda>q. (system_message, summary_prompt topic q (web_text env q)))
               (queries topic)"
proof -
  define s where "s q = projr (summary_of env topic q)" for q
  have s: "\<forall>q\<in>set (queries topic). summary_of env topic q = Inr (s q)"
    using assms(4) by (auto simp: s_def)
  have wf: "web_text env qf = ''Search failed: '' @ str_exn e"
    by (rule web_text_raise [OF assms(2)])
  have "web_text env q \<noteq> ''No results.''" if "q \<in> set (queries topic)" for q
  proof (cases "q = qf")
    case True
    then show ?thesis by (simp add: wf)
  next
    case False
    with that assms(1) have "q \<in> set (pre @ post)" by auto
    with assms(3) have "search_finds env q" by blast
    then have "\<not> search_empty env q"
      by (auto simp: search_finds_def search_empty_def split: sum.splits)
    then show ?thesis by (simp add: web_text_sentinel_iff)
  qed
  then have w: "\<forall>q\<in>set (queries topic). web_text env q \<noteq> ''No results.''" by blast
  note loop = research_loop_all_summarised [OF w s, of "[]"]
  have three: "queries topic =
      [topic @ '' recent developments'', topic @ '' key players and companies'',
       topic @ '' major challenges and opportunities'']"
    by (simp add: queries_def)
  have sums: "map (summary_of env topic) (queries topic) =
      [Inr (s (topic @ '' recent developments'')),
       Inr (s (topic @ '' key players and companies'')),
       Inr (s (topic @ '' major challenges and opportunities''))]"
    using s by (simp add: three)
  have result: "fst (research_topic env topic) =
      Inr (s (topic @ '' recent developments'') @ separator
           @ s (topic @ '' key players and companies'') @ separator
           @ s (topic @ '' major challenges and opportunities''))"
    using loop by (simp add: research_topic_eq) (simp add: three)
  have calls: "search_calls (snd (research_topic env topic)) = queries topic"
    "summarizer_calls (snd (research_topic env topic)) =
       map (\<lambda>q. (system_message, summary_prompt topic q (web_text env q))) (queries topic)"
    using loop by (simp_all add: research_topic_eq)
  show ?thesis
    by (intro exI [of _ "s (topic @ '' recent developments'')"]
              exI [of _ "s (topic @ '' key players and companies'')"]
              exI [of _ "s (topic @ '' major challenges and opportunities'')"] conjI)
       (rule sums result wf calls)+
qed

lemma scenario_search_fails_facts:
  "tavily_search scenario_search_fails ''AI recent developments'' =
     Inl (Exc ''ConnectionError'' ''boom'')"
  "search_finds scenario_search_fails ''AI key players and companies''"
  "search_finds scenario_search_fails ''AI major challenges and opportunities''"
  "web_text scenario_search_fails ''AI recent developments'' = ''Search failed: boom''"
  "web_text scenario_search_fails ''AI key players and companies'' = text_TCU"
  "web_text scenario_search_fails ''AI major challenges and opportunities'' = text_TCU"
proof -
  show f: "tavily_search scenario_search_fails ''AI recent developments'' =
     Inl (Exc ''ConnectionError'' ''boom'')"
    by (simp add: scenario_search_fails_def)
  show "search_finds scenario_search_fails ''AI key players and companies''"
    and "search_finds scenario_search_fails ''AI major challenges and opportunities''"
    by (simp_all add: search_finds_def scenario_search_fails_def dict_get_def)
  show "web_text scenario_search_fails ''AI recent developments'' = ''Search failed: boom''"
    by (simp add: web_text_raise [OF f] str_exn_def)
  show "web_text scenario_search_fails ''AI key players and companies'' = text_TCU"
    by (rule web_text_TCU [of _ _ "[''results'' \<mapsto> [item_TCU]]"])
       (simp_all add: scenario_search_fails_def)
  show "web_text scenario_search_fails ''AI major challenges and opportunities'' = text_TCU"
    by (rule web_text_TCU [of _ _ "[''results'' \<mapsto> [item_TCU]]"])
       (simp_all add: scenario_search_fails_def)
qed

lemma scenario_search_fails_summaries:
  "summary_of scenario_search_fails ''AI'' ''AI recent developments'' = Inr ''S1''"
  "summary_of scenario_search_fails ''AI'' ''AI key players and companies'' = Inr ''S2''"
  "summary_of scenario_search_fails ''AI'' ''AI major challenges and opportunities'' = Inr ''S3''"
  unfolding summary_of_def scenario_search_fails_facts
  by (simp_all add: scenario_search_fails_def summary_prompt_def text_TCU_def)

theorem research_topic_one_search_failure_witness:
  "fst (research_topic scenario_search_fails ''AI'') =
     Inr ''S1\<newline>\<newline>---\<newline>\<newline>S2\<newline>\<newline>---\<newline>\<newline>S3''"
  using research_topic_one_search_failure
    [of "''AI''" "[]" "''AI recent developments''"
        "[''AI key players and companies'', ''AI major challenges and opportunities'']"
        scenario_search_fails "Exc ''ConnectionError'' ''boom''"]
  by (simp add: queries_def scenario_search_fails_facts scenario_search_fails_summaries
        separator_def)

text \<open>
  The claim as written fails: with the search raising for the first sub-query only, the
  result holds three summaries, the first of them the summariser's answer \<open>S1\<close> to the
  prompt that carries \<open>Search failed: boom\<close>; it is not the two summaries \<open>S2\<close> and
  \<open>S3\<close> of the successful searches joined by the separator.
\<close>

theorem search_failure_counterexample:
  "search_raises scenario_search_fails ''AI recent developments'' \<and>
   search_finds scenario_search_fails ''AI key players and companies'' \<and>
   search_finds scenario_search_fails ''AI major challenges and opportunities'' \<and>
   summary_of scenario_search_fails ''AI'' ''AI key players and companies'' = Inr ''S2'' \<and>
   summary_of scenario_search_fails ''AI'' ''AI major challenges and opportunities'' = Inr ''S3'' \<and>
   fst (research_topic scenario_search_fails ''AI'') =
     Inr ''S1\<newline>\<newline>---\<newline>\<newline>S2\<newline>\<newline>---\<newline>\<newline>S3'' \<and>
   fst (research_topic scenario_search_fails ''AI'') \<noteq> Inr (''S2'' @ separator @ ''S3'') \<and>
   summarizer_calls (snd (research_topic scenario_search_fails ''AI'')) =
     [(system_message, summary_prompt ''AI'' ''AI recent developments'' ''Search failed: boom''),
      (system_message, summary_prompt ''AI'' ''AI key players and companies'' text_TCU),
      (system_message,
       summary_prompt ''AI'' ''AI major challenges and opportunities'' text_TCU)]"
proof -
  have raises: "search_raises scenario_search_fails ''AI recent developments''"
    by (simp add: search_raises_def scenario_search_fails_facts)
  have nr: "\<not> search_raises scenario_search_fails ''AI key players and companies''"
    "\<not> search_raises scenario_search_fails ''AI major challenges and opportunities''"
    by (simp_all add: search_raises_def scenario_search_fails_def)
  have loop: "research_loop scenario_search_fails ''AI'' (queries ''AI'') [] =
     (Inr [''S1'', ''S2'', ''S3''],
      [Search ''AI recent developments'', LogError ''Search error'',
       Invoke system_message
         (summary_prompt ''AI'' ''AI recent developments'' ''Search failed: boom''),
       Search ''AI key players and companies'',
       Invoke system_message (summary_prompt ''AI'' ''AI key players and companies'' text_TCU),
       Search ''AI major challenges and opportunities'',
       Invoke system_message
         (summary_prompt ''AI'' ''AI major challenges and opportunities'' text_TCU)])"
    by (simp add: queries_def research_loop_Cons scenario_search_fails_facts
          scenario_search_fails_summaries text_TCU_not_sentinel search_web_trace raises nr)
  have result: "fst (research_topic scenario_search_fails ''AI'') =
     Inr ''S1\<newline>\<newline>---\<newline>\<newline>S2\<newline>\<newline>---\<newline>\<newline>S3''"
    by (simp add: research_topic_eq loop separator_def)
  have "summarizer_calls (snd (research_topic scenario_search_fails ''AI'')) =
     [(system_message, summary_prompt ''AI'' ''AI recent developments'' ''Search failed: boom''),
      (system_message, summary_prompt ''AI'' ''AI key players and companies'' text_TCU),
      (system_message,
       summary_prompt ''AI'' ''AI major challenges and opportunities'' text_TCU)]"
    by (simp add: research_topic_eq loop)
  moreover have "fst (research_topic scenario_search_fails ''AI'') \<noteq>
      Inr (''S2'' @ separator @ ''S3'')"
    by (simp add: result separator_def)
  ultimately show ?thesis
    using raises result
    by (simp add: scenario_search_fails_facts scenario_search_fails_summaries)
qed

end
